theory Spec2Isabelle
  imports Main
begin

section \<open>Python values carried by events, tokens and records\<close>

text \<open>
  The handlers of \<^verbatim>\<open>asgi.py\<close> receive JSON-like payloads and only ever test a
  value for truth (\<^verbatim>\<open>if not order_id\<close>), render it inside an f-string, call
  \<^verbatim>\<open>.strip()\<close> on it or pass it on. \<open>POther t r\<close> stands for a value of any
  other Python type (a float, a list, a nested dict, a datetime), given by its truth value
  \<open>t\<close> and its \<^verbatim>\<open>str()\<close> rendering \<open>r\<close>. A character is one code point below 256.
\<close>

datatype pyval = PNone | PBool bool | PInt int | PStr string | POther bool string

type_synonym pydict = "string \<rightharpoonup> pyval"

text \<open>The argument of a handler: a dict, or anything else (\<^verbatim>\<open>isinstance(data, dict)\<close>).\<close>

datatype pydata = Dict pydict | NonDict

fun truthy :: "pyval \<Rightarrow> bool" where
  "truthy PNone = False"
| "truthy (PBool b) = b"
| "truthy (PInt n) = (n \<noteq> 0)"
| "truthy (PStr s) = (s \<noteq> [])"
| "truthy (POther t r) = t"

text \<open>\<^verbatim>\<open>d.get(k)\<close> and \<^verbatim>\<open>d.get(k, default)\<close>.\<close>

definition dict_get :: "pydict \<Rightarrow> string \<Rightarrow> pyval" where
  "dict_get d k = (case d k of None \<Rightarrow> PNone | Some v \<Rightarrow> v)"

definition dict_get_default :: "pydict \<Rightarrow> string \<Rightarrow> pyval \<Rightarrow> pyval" where
  "dict_get_default d k dflt = (case d k of None \<Rightarrow> dflt | Some v \<Rightarrow> v)"

subsection \<open>Rendering inside an f-string\<close>

definition digit_char :: "nat \<Rightarrow> char" where
  "digit_char n = ''0123456789'' ! n"

fun str_nat :: "nat \<Rightarrow> string" where
  "str_nat n = (if n < 10 then [digit_char n] else str_nat (n div 10) @ [digit_char (n mod 10)])"

declare str_nat.simps [simp del]

definition str_int :: "int \<Rightarrow> string" where
  "str_int i = (if i < 0 then CHR ''-'' # str_nat (nat (- i)) else str_nat (nat i))"

fun py_str :: "pyval \<Rightarrow> string" where
  "py_str PNone = ''None''"
| "py_str (PBool b) = (if b then ''True'' else ''False'')"
| "py_str (PInt n) = str_int n"
| "py_str (PStr s) = s"
| "py_str (POther t r) = r"

text \<open>The two room names the handlers build: \<^verbatim>\<open>f"user_{...}"\<close> and \<^verbatim>\<open>f'order_{...}'\<close>.\<close>

definition user_room :: "pyval \<Rightarrow> string" where
  "user_room uid = ''user_'' @ py_str uid"

definition order_room :: "pyval \<Rightarrow> string" where
  "order_room oid = ''order_'' @ py_str oid"

subsection \<open>\<^verbatim>\<open>str.strip()\<close>\<close>

definition is_space :: "char \<Rightarrow> bool" where
  "is_space c = (of_char c \<in> {9, 10, 11, 12, 13, 28, 29, 30, 31, 32, 133, 160 :: nat})"

definition strip :: "string \<Rightarrow> string" where
  "strip s = rev (dropWhile is_space (rev (dropWhile is_space s)))"

section \<open>Errors\<close>

datatype error =
    AttributeError    \<comment> \<open>\<^verbatim>\<open>.get\<close> on a non-dict, \<^verbatim>\<open>.strip\<close> on a non-string\<close>
  | PersistenceError  \<comment> \<open>\<^verbatim>\<open>db.commit()\<close> raised\<close>
  | Forbidden         \<comment> \<open>\<^verbatim>\<open>AuthError("Admin only", 403)\<close>\<close>

text \<open>\<^verbatim>\<open>data.get('text','').strip()\<close>: only a string has \<^verbatim>\<open>strip\<close>.\<close>

fun py_strip :: "pyval \<Rightarrow> error + string" where
  "py_strip (PStr s) = Inr (strip s)"
| "py_strip v = Inl AttributeError"

section \<open>The data model (\<^verbatim>\<open>models.py\<close>) and the server state\<close>

record Message =
  id_m :: pyval
  user_id :: pyval
  username :: pyval
  direction :: pyval
  text_m :: pyval
  chat_id :: pyval
  message_type :: pyval
  order_id :: pyval
  created_at :: pyval

text \<open>
  \<^verbatim>\<open>Message(user_id=.., username=.., direction=.., text=.., order_id=..)\<close>: the columns
  that are not given stay \<^verbatim>\<open>None\<close> until the row is written.
\<close>

definition new_Message :: "pyval \<Rightarrow> pyval \<Rightarrow> string \<Rightarrow> string \<Rightarrow> pyval \<Rightarrow> Message" where
  "new_Message uid uname dir txt oid =
     \<lparr>id_m = PNone, user_id = uid, username = uname, direction = PStr dir, text_m = PStr txt,
      chat_id = PNone, message_type = PNone, order_id = oid, created_at = PNone\<rparr>"

text \<open>The session dict \<^verbatim>\<open>{'user_id': .., 'username': ..}\<close> that \<^verbatim>\<open>connect\<close> saves.\<close>

record session =
  sess_user_id :: pyval
  sess_username :: pyval

type_synonym sid = string

text \<open>An emitted event: its name and its payload.\<close>

type_synonym emitted = "string \<times> pydict"

text \<open>
  The state the handlers act on: the socket server's sessions and rooms, what each
  connection has been sent, and the \<^verbatim>\<open>messages\<close> table with its id sequence.
\<close>

record server =
  sessions :: "sid \<rightharpoonup> session"
  rooms :: "string \<Rightarrow> sid set"
  outbox :: "sid \<Rightarrow> emitted list"
  messages :: "Message list"
  next_id :: int

text \<open>
  What the handlers take from outside: the token decoder (\<^verbatim>\<open>jwt.decode\<close> with the
  configured secret and algorithm; \<open>None\<close> when it raises), whether the database accepts
  the commit, and the database's clock.
\<close>

record env =
  jwt_decode :: "pyval \<Rightarrow> pydict option"
  commit_ok :: bool
  now :: string

subsection \<open>The socket server's primitives\<close>

text \<open>
  \<^verbatim>\<open>save_session\<close>, \<^verbatim>\<open>get_session\<close>, \<^verbatim>\<open>enter_room\<close>, \<^verbatim>\<open>leave_room\<close> and
  \<^verbatim>\<open>emit\<close> belong to the socket library; they are modelled by their contract: a room
  is a set of connections, and \<^verbatim>\<open>emit(.., room=r)\<close> hands the event to every
  connection that is in \<open>r\<close> when it is called. \<^verbatim>\<open>get_session\<close> of a connection without a
  saved session is the empty (falsy) dict, here \<open>None\<close>. The source calls
  \<^verbatim>\<open>save_session\<close> and \<^verbatim>\<open>get_session\<close> without awaiting them; the model takes them to
  act and to answer at once, as the handlers' use of their results presumes.
\<close>

definition save_session :: "sid \<Rightarrow> session \<Rightarrow> server \<Rightarrow> server" where
  "save_session c sess s = s\<lparr>sessions := (sessions s)(c \<mapsto> sess)\<rparr>"

definition get_session :: "sid \<Rightarrow> server \<Rightarrow> session option" where
  "get_session c s = sessions s c"

definition enter_room :: "sid \<Rightarrow> string \<Rightarrow> server \<Rightarrow> server" where
  "enter_room c r s = s\<lparr>rooms := (rooms s)(r := insert c (rooms s r))\<rparr>"

definition leave_room :: "sid \<Rightarrow> string \<Rightarrow> server \<Rightarrow> server" where
  "leave_room c r s = s\<lparr>rooms := (rooms s)(r := rooms s r - {c})\<rparr>"

definition emit :: "string \<Rightarrow> pydict \<Rightarrow> string \<Rightarrow> server \<Rightarrow> server" where
  "emit ev payload r s =
     s\<lparr>outbox := (\<lambda>c. if c \<in> rooms s r then outbox s c @ [(ev, payload)] else outbox s c)\<rparr>"

subsection \<open>The message store\<close>

text \<open>
  \<^verbatim>\<open>db.add(msg); db.commit(); db.refresh(msg)\<close>: the row gets the next id of the
  sequence and the server-side \<^verbatim>\<open>created_at\<close>; when the commit raises, nothing is
  written.
\<close>

definition db_add_commit :: "env \<Rightarrow> Message \<Rightarrow> server \<Rightarrow> (Message \<times> server) option" where
  "db_add_commit e m s =
     (if commit_ok e
      then (let m' = m\<lparr>id_m := PInt (next_id s), created_at := POther True (now e)\<rparr>
            in Some (m', s\<lparr>messages := messages s @ [m'], next_id := next_id s + 1\<rparr>))
      else None)"

text \<open>The ids of the rows come from the sequence: each is an integer below the next id.\<close>

definition row_id_below :: "int \<Rightarrow> Message \<Rightarrow> bool" where
  "row_id_below n m = (case id_m m of PInt k \<Rightarrow> k < n | _ \<Rightarrow> False)"

definition store_ok :: "server \<Rightarrow> bool" where
  "store_ok s = list_all (row_id_below (next_id s)) (messages s)"

definition serialize_message :: "Message \<Rightarrow> pydict" where
  "serialize_message m =
     [''id'' \<mapsto> id_m m, ''user_id'' \<mapsto> user_id m, ''direction'' \<mapsto> direction m,
      ''text'' \<mapsto> text_m m, ''order_id'' \<mapsto> order_id m, ''created_at'' \<mapsto> created_at m]"

section \<open>The event handlers of \<^verbatim>\<open>asgi.py\<close>\<close>

text \<open>
  \<^verbatim>\<open>connect\<close> returns \<^verbatim>\<open>False\<close> to refuse the connection; the flag is \<open>True\<close> when it is
  admitted. The token is \<^verbatim>\<open>auth.get('token')\<close> when \<^verbatim>\<open>auth\<close> is a dict, else \<^verbatim>\<open>None\<close>.
\<close>

definition auth_token :: "pydata \<Rightarrow> pyval" where
  "auth_token auth = (case auth of Dict d \<Rightarrow> dict_get d ''token'' | NonDict \<Rightarrow> PNone)"

definition connect :: "env \<Rightarrow> sid \<Rightarrow> pydata \<Rightarrow> server \<Rightarrow> bool \<times> server" where
  "connect e c auth s =
     (let token = auth_token auth in
      if \<not> truthy token then (False, s)
      else (case jwt_decode e token of
              None \<Rightarrow> (False, s)
            | Some payload \<Rightarrow>
                (True, save_session c \<lparr>sess_user_id = dict_get payload ''user_id'',
                                       sess_username = dict_get payload ''username''\<rparr> s)))"

definition disconnect :: "sid \<Rightarrow> server \<Rightarrow> server" where
  "disconnect c s = s"

text \<open>
  The other handlers return the exception they raise, if any, and the state they leave.
\<close>

text \<open>\<^verbatim>\<open>data.get('order_id') if isinstance(data, dict) else None\<close>\<close>

definition payload_order_id :: "pydata \<Rightarrow> pyval" where
  "payload_order_id data = (case data of Dict d \<Rightarrow> dict_get d ''order_id'' | NonDict \<Rightarrow> PNone)"

text \<open>\<^verbatim>\<open>data.get('text','')\<close>\<close>

definition payload_text :: "pydict \<Rightarrow> pyval" where
  "payload_text d = dict_get_default d ''text'' (PStr [])"

definition join :: "sid \<Rightarrow> pydata \<Rightarrow> server \<Rightarrow> error option \<times> server" where
  "join c data s =
     (case get_session c s of
        None \<Rightarrow> (None, s)
      | Some sess \<Rightarrow> (None, enter_room c (user_room (sess_user_id sess)) s))"

definition join_order_room :: "sid \<Rightarrow> pydata \<Rightarrow> server \<Rightarrow> error option \<times> server" where
  "join_order_room c data s =
     (case get_session c s of
        None \<Rightarrow> (None, s)
      | Some sess \<Rightarrow>
          (let order_id = payload_order_id data in
           if \<not> truthy order_id then (None, s)
           else (None, enter_room c (order_room order_id) s)))"

definition leave_order_room :: "sid \<Rightarrow> pydata \<Rightarrow> server \<Rightarrow> error option \<times> server" where
  "leave_order_room c data s =
     (let order_id = payload_order_id data in
      if \<not> truthy order_id then (None, s)
      else (None, leave_room c (order_room order_id) s))"

text \<open>\<^verbatim>\<open>if client_msg_id: payload['client_message_id'] = client_msg_id\<close>\<close>

definition with_client_msg_id :: "pyval \<Rightarrow> pydict \<Rightarrow> pydict" where
  "with_client_msg_id client_msg_id payload =
     (if truthy client_msg_id then payload(''client_message_id'' \<mapsto> client_msg_id) else payload)"

definition send_message :: "env \<Rightarrow> sid \<Rightarrow> pydata \<Rightarrow> server \<Rightarrow> error option \<times> server" where
  "send_message e c data s =
     (case get_session c s of
        None \<Rightarrow> (None, s)
      | Some sess \<Rightarrow>
          (case data of
             NonDict \<Rightarrow> (Some AttributeError, s)
           | Dict d \<Rightarrow>
               (let order_id = dict_get d ''order_id'' in
                case py_strip (payload_text d) of
                  Inl err \<Rightarrow> (Some err, s)
                | Inr txt \<Rightarrow>
                    (let client_msg_id = dict_get d ''client_message_id'' in
                     if \<not> truthy order_id \<or> txt = [] then (None, s)
                     else (case db_add_commit e (new_Message (sess_user_id sess) (sess_username sess)
                                                   ''in'' txt order_id) s of
                             None \<Rightarrow> (Some PersistenceError, s)
                           | Some (msg, s') \<Rightarrow>
                               (None, emit ''new_message''
                                        (with_client_msg_id client_msg_id (serialize_message msg))
                                        (order_room order_id) s'))))))"

definition send_user_message :: "env \<Rightarrow> sid \<Rightarrow> pydata \<Rightarrow> server \<Rightarrow> error option \<times> server" where
  "send_user_message e c data s =
     (case get_session c s of
        None \<Rightarrow> (None, s)
      | Some sess \<Rightarrow>
          (case data of
             NonDict \<Rightarrow> (Some AttributeError, s)
           | Dict d \<Rightarrow>
               (case py_strip (payload_text d) of
                  Inl err \<Rightarrow> (Some err, s)
                | Inr txt \<Rightarrow>
                    (let client_msg_id = dict_get d ''client_message_id'' in
                     if txt = [] then (None, s)
                     else (case db_add_commit e (new_Message (sess_user_id sess) (sess_username sess)
                                                   ''in'' txt PNone) s of
                             None \<Rightarrow> (Some PersistenceError, s)
                           | Some (msg, s') \<Rightarrow>
                               (None, emit ''new_support_message''
                                        (with_client_msg_id client_msg_id (serialize_message msg))
                                        (user_room (sess_user_id sess)) s'))))))"

section \<open>The admin endpoint of \<^verbatim>\<open>main.py\<close>\<close>

text \<open>
  \<^verbatim>\<open>POST /api/send_message_to_user\<close>: \<^verbatim>\<open>Depends(get_current_admin)\<close> refuses a
  caller whose role is not \<^verbatim>\<open>'admin'\<close>; the body writes the row and returns. It
  emits nothing.
\<close>

definition send_message_to_user ::
    "env \<Rightarrow> string \<Rightarrow> int \<Rightarrow> string \<Rightarrow> int option \<Rightarrow> server \<Rightarrow> error option \<times> server" where
  "send_message_to_user e role uid message oid s =
     (if role \<noteq> ''admin'' then (Some Forbidden, s)
      else (case db_add_commit e (new_Message (PInt uid) (PStr ''admin'') ''out'' message
                                    (case oid of None \<Rightarrow> PNone | Some n \<Rightarrow> PInt n)) s of
              None \<Rightarrow> (Some PersistenceError, s)
            | Some (msg, s') \<Rightarrow> (None, s')))"

section \<open>Streams of inbound events\<close>

datatype event =
    Connect pydata
  | Disconnect
  | Join pydata
  | Join_order_room pydata
  | Leave_order_room pydata
  | Send_message pydata
  | Send_user_message pydata

fun handle :: "env \<Rightarrow> sid \<Rightarrow> event \<Rightarrow> server \<Rightarrow> server" where
  "handle e c (Connect auth) s = snd (connect e c auth s)"
| "handle e c Disconnect s = disconnect c s"
| "handle e c (Join data) s = snd (join c data s)"
| "handle e c (Join_order_room data) s = snd (join_order_room c data s)"
| "handle e c (Leave_order_room data) s = snd (leave_order_room c data s)"
| "handle e c (Send_message data) s = snd (send_message e c data s)"
| "handle e c (Send_user_message data) s = snd (send_user_message e c data s)"

fun run :: "(env \<times> sid \<times> event) list \<Rightarrow> server \<Rightarrow> server" where
  "run [] s = s"
| "run ((e, c, ev) # evs) s = run evs (handle e c ev s)"



section \<open>A concrete server for the examples\<close>

definition init_server :: server where
  "init_server = \<lparr>sessions = Map.empty, rooms = (\<lambda>r. {}), outbox = (\<lambda>c. []),
                   messages = [], next_id = 1\<rparr>"

text \<open>A decoder that accepts two tokens: one of user 1 and one of user 2.\<close>

definition demo_decode :: "pyval \<Rightarrow> pydict option" where
  "demo_decode t =
     (if t = PStr ''tok1'' then Some [''user_id'' \<mapsto> PInt 1, ''username'' \<mapsto> PStr ''u1'']
      else if t = PStr ''tok2'' then Some [''user_id'' \<mapsto> PInt 2, ''username'' \<mapsto> PStr ''u2'']
      else None)"

definition demo_env :: env where
  "demo_env = \<lparr>jwt_decode = demo_decode, commit_ok = True, now = ''2024-01-01 00:00:00''\<rparr>"

text \<open>
  A small scenario: connection \<open>sid1\<close> (user 1) has joined its personal room and the room
  of order 555, \<open>sid2\<close> (user 2) has joined the room of order 555, and \<open>sid3\<close> (user 2
  again) is connected and has joined nothing.
\<close>

definition demo_events :: "(env \<times> sid \<times> event) list" where
  "demo_events =
     [(demo_env, ''sid1'', Connect (Dict [''token'' \<mapsto> PStr ''tok1''])),
      (demo_env, ''sid1'', Join (Dict Map.empty)),
      (demo_env, ''sid1'', Join_order_room (Dict [''order_id'' \<mapsto> PInt 555])),
      (demo_env, ''sid2'', Connect (Dict [''token'' \<mapsto> PStr ''tok2''])),
      (demo_env, ''sid2'', Join_order_room (Dict [''order_id'' \<mapsto> PInt 555])),
      (demo_env, ''sid3'', Connect (Dict [''token'' \<mapsto> PStr ''tok2'']))]"

definition demo_room :: server where
  "demo_room = run demo_events init_server"



section \<open>Room operations as the specification words them, and the room invariant\<close>

text \<open>
  A join or a leave of one room by a connection, and the membership the specification
  gives for a sequence of them: a join adds the connection by set union, a leave removes
  it by set difference, so duplicates and leaves without a join change nothing more.
\<close>

datatype room_op = JoinOp sid | LeaveOp sid

fun membership_after :: "room_op list \<Rightarrow> sid set \<Rightarrow> sid set" where
  "membership_after [] M = M"
| "membership_after (JoinOp c # ops) M = membership_after ops (M \<union> {c})"
| "membership_after (LeaveOp c # ops) M = membership_after ops (M - {c})"

text \<open>The event by which a connection does the operation on the room of order \<open>oid\<close>.\<close>

fun order_room_event :: "env \<Rightarrow> pyval \<Rightarrow> room_op \<Rightarrow> env \<times> sid \<times> event" where
  "order_room_event e oid (JoinOp c) = (e, c, Join_order_room (Dict [''order_id'' \<mapsto> oid]))"
| "order_room_event e oid (LeaveOp c) = (e, c, Leave_order_room (Dict [''order_id'' \<mapsto> oid]))"



section \<open>Facts about the primitives and the send handlers\<close>

lemmas handler_defs = connect_def auth_token_def join_def join_order_room_def leave_order_room_def
  send_message_def send_user_message_def disconnect_def get_session_def save_session_def
  enter_room_def leave_room_def emit_def db_add_commit_def payload_order_id_def payload_text_def
  dict_get_def dict_get_default_def with_client_msg_id_def serialize_message_def new_Message_def
  user_room_def order_room_def str_int_def str_nat.simps digit_char_def strip_def is_space_def
  Let_def

lemmas demo_defs = demo_room_def demo_events_def demo_env_def demo_decode_def init_server_def


lemma demo_room_eq:
  "demo_room = \<lparr>sessions = [''sid1'' \<mapsto> \<lparr>sess_user_id = PInt 1, sess_username = PStr ''u1''\<rparr>,
      ''sid2'' \<mapsto> \<lparr>sess_user_id = PInt 2, sess_username = PStr ''u2''\<rparr>,
      ''sid3'' \<mapsto> \<lparr>sess_user_id = PInt 2, sess_username = PStr ''u2''\<rparr>],
     rooms = (\<lambda>r. {})(''user_1'' := {''sid1''}, ''order_555'' := {''sid1'', ''sid2''}),
     outbox = (\<lambda>c. []), messages = [], next_id = 1\<rparr>"
  by (simp add: demo_defs handler_defs insert_commute)









lemma emit_other [simp]:
  "messages (emit ev P r s) = messages s" "rooms (emit ev P r s) = rooms s"
  "sessions (emit ev P r s) = sessions s" "next_id (emit ev P r s) = next_id s"
  by (simp_all add: emit_def)






subsection \<open>The id sequence stays ahead of the rows\<close>

lemma store_ok_init: "store_ok init_server"
  by (simp add: store_ok_def init_server_def)

lemma db_add_commit_store_ok:
  assumes "store_ok s" "db_add_commit e m s = Some (m', s')"
  shows "store_ok s'"
proof -
  have "list_all (row_id_below (next_id s + 1)) (messages s)"
    using assms(1) by (auto simp: store_ok_def row_id_below_def list_all_iff split: pyval.splits)
  with assms(2) show ?thesis
    by (auto simp: store_ok_def row_id_below_def db_add_commit_def Let_def split: if_splits)
qed

lemma emit_store_ok: "store_ok (emit ev P r s) = store_ok s"
  by (simp add: store_ok_def)

lemma handle_store_ok:
  assumes "store_ok s"
  shows "store_ok (handle e c ev s)"
proof (cases ev)
  case (Send_message data)
  with assms show ?thesis
    by (auto simp: send_message_def get_session_def Let_def emit_store_ok
          split: option.splits pydata.splits sum.splits dest: db_add_commit_store_ok)
next
  case (Send_user_message data)
  with assms show ?thesis
    by (auto simp: send_user_message_def get_session_def Let_def emit_store_ok
          split: option.splits pydata.splits sum.splits dest: db_add_commit_store_ok)
qed (use assms in \<open>auto simp: store_ok_def connect_def save_session_def disconnect_def join_def
       join_order_room_def leave_order_room_def get_session_def enter_room_def leave_room_def
       Let_def split: option.splits\<close>)

lemma send_message_to_user_store_ok:
  "store_ok s \<Longrightarrow> store_ok (snd (send_message_to_user e role uid message oid s))"
  by (auto simp: send_message_to_user_def split: option.splits dest: db_add_commit_store_ok)

subsection \<open>Rooms and sessions under the handlers\<close>



lemma room_handlers_keep_sessions:
  "sessions (snd (join c data s)) = sessions s"
  "sessions (snd (join_order_room c data s)) = sessions s"
  "sessions (snd (leave_order_room c data s)) = sessions s"
  by (auto simp: join_def join_order_room_def leave_order_room_def get_session_def enter_room_def
        leave_room_def Let_def split: option.splits)


lemma join_order_room_rooms:
  "rooms (snd (join_order_room c data s)) r =
     (if sessions s c \<noteq> None \<and> truthy (payload_order_id data) \<and> r = order_room (payload_order_id data)
      then insert c (rooms s r) else rooms s r)"
  by (auto simp: join_order_room_def get_session_def enter_room_def Let_def split: option.splits)

lemma leave_order_room_rooms:
  "rooms (snd (leave_order_room c data s)) r =
     (if truthy (payload_order_id data) \<and> r = order_room (payload_order_id data)
      then rooms s r - {c} else rooms s r)"
  by (auto simp: leave_order_room_def leave_room_def Let_def)




lemma run_order_room_ops:
  assumes "truthy oid" "\<forall>c. JoinOp c \<in> set ops \<longrightarrow> sessions s c \<noteq> None"
  shows "rooms (run (map (order_room_event e oid) ops) s) (order_room oid)
           = membership_after ops (rooms s (order_room oid))"
  using assms(2)
proof (induction ops arbitrary: s)
  case Nil
  show ?case by simp
next
  case (Cons op ops)
  show ?case
  proof (cases op)
    case (JoinOp c)
    let ?s = "snd (join_order_room c (Dict [''order_id'' \<mapsto> oid]) s)"
    have oid: "payload_order_id (Dict [''order_id'' \<mapsto> oid]) = oid"
      by (simp add: payload_order_id_def dict_get_def)
    have "\<forall>c'. JoinOp c' \<in> set ops \<longrightarrow> sessions ?s c' \<noteq> None"
      using Cons.prems by (simp add: room_handlers_keep_sessions)
    from Cons.IH [OF this] Cons.prems assms(1) show ?thesis
      by (simp add: JoinOp join_order_room_rooms oid)
  next
    case (LeaveOp c)
    let ?s = "snd (leave_order_room c (Dict [''order_id'' \<mapsto> oid]) s)"
    have oid: "payload_order_id (Dict [''order_id'' \<mapsto> oid]) = oid"
      by (simp add: payload_order_id_def dict_get_def)
    have "\<forall>c'. JoinOp c' \<in> set ops \<longrightarrow> sessions ?s c' \<noteq> None"
      using Cons.prems by (simp add: room_handlers_keep_sessions)
    from Cons.IH [OF this] assms(1) show ?thesis
      by (simp add: LeaveOp leave_order_room_rooms oid)
  qed
qed

lemma join_order_room_again:
  "c \<in> rooms s (order_room (payload_order_id data)) \<Longrightarrow> snd (join_order_room c data s) = s"
  by (auto simp: join_order_room_def get_session_def enter_room_def Let_def insert_absorb
        split: option.splits)

lemma leave_order_room_absent:
  "c \<notin> rooms s (order_room (payload_order_id data)) \<Longrightarrow> snd (leave_order_room c data s) = s"
  by (auto simp: leave_order_room_def leave_room_def Let_def)

lemma join_again:
  "sessions s c = Some sess \<Longrightarrow> c \<in> rooms s (user_room (sess_user_id sess)) \<Longrightarrow>
   snd (join c data s) = s"
  by (auto simp: join_def get_session_def enter_room_def insert_absorb)

subsection \<open>One event, and a stream of events\<close>






section \<open>Connection admission\<close>

text \<open>
  C2. A connection attempt whose credential is missing (the auth value is not a dict, or
  carries no token, or an empty one) or is one that the decoder rejects (malformed, expired or
  wrongly signed: \<^verbatim>\<open>jwt.decode\<close> raises) is refused: \<^verbatim>\<open>connect\<close> returns
  \<^verbatim>\<open>False\<close> and the server is left exactly as it was, so no session is saved for the
  connection and nothing is sent to it.
\<close>

theorem connect_refuses_bad_credential:
  assumes "\<not> truthy (auth_token auth) \<or> jwt_decode e (auth_token auth) = None"
  shows "connect e c auth s = (False, s)"
  using assms by (auto simp: connect_def Let_def)

theorem connect_refuses_bad_credential_witness:
  "jwt_decode demo_env (auth_token (Dict [''token'' \<mapsto> PStr ''forged''])) = None \<and>
   connect demo_env ''sid1'' (Dict [''token'' \<mapsto> PStr ''forged'']) init_server = (False, init_server) \<and>
   sessions init_server ''sid1'' = None"
  using connect_refuses_bad_credential
          [of "Dict [''token'' \<mapsto> PStr ''forged'']" demo_env "''sid1''" init_server]
  by (simp add: auth_token_def dict_get_def demo_env_def demo_decode_def init_server_def)




text \<open>
  C5. With a valid token (one the decoder accepts), \<^verbatim>\<open>connect\<close> followed at once by
  \<^verbatim>\<open>join_order_room\<close> carrying an order id \<open>O\<close> (any truthy value: the handler takes
  \<^verbatim>\<open>None\<close>, \<^verbatim>\<open>0\<close> and \<^verbatim>\<open>""\<close> as "no order id") leaves the connection in the room
  \<^verbatim>\<open>order_<O>\<close>; with a missing, invalid or expired token \<^verbatim>\<open>connect\<close> refuses and the
  sessions are as before.
\<close>

theorem connect_then_join_order_room:
  "(truthy (auth_token auth) \<and> jwt_decode e (auth_token auth) = Some p \<and>
      truthy (payload_order_id data) \<longrightarrow>
      fst (connect e c auth s) \<and>
      c \<in> rooms (snd (join_order_room c data (snd (connect e c auth s))))
                (order_room (payload_order_id data))) \<and>
   (\<not> truthy (auth_token auth) \<or> jwt_decode e (auth_token auth) = None \<longrightarrow>
      \<not> fst (connect e c auth s) \<and> sessions (snd (connect e c auth s)) = sessions s)"
  by (auto simp: connect_def save_session_def join_order_room_def get_session_def enter_room_def Let_def)

theorem connect_then_join_order_room_witness:
  "truthy (auth_token (Dict [''token'' \<mapsto> PStr ''tok1''])) \<and>
   truthy (payload_order_id (Dict [''order_id'' \<mapsto> PInt 555])) \<and>
   ''sid1'' \<in> rooms (snd (join_order_room ''sid1'' (Dict [''order_id'' \<mapsto> PInt 555])
                    (snd (connect demo_env ''sid1'' (Dict [''token'' \<mapsto> PStr ''tok1'']) init_server))))
                 ''order_555'' \<and>
   sessions (snd (connect demo_env ''sid2'' (Dict [''token'' \<mapsto> PStr ''expired'']) init_server)) ''sid2'' = None"
  using connect_then_join_order_room
    [of "Dict [''token'' \<mapsto> PStr ''tok1'']" demo_env "[''user_id'' \<mapsto> PInt 1, ''username'' \<mapsto> PStr ''u1'']"
        "Dict [''order_id'' \<mapsto> PInt 555]" "''sid1''" init_server]
    connect_then_join_order_room
    [of "Dict [''token'' \<mapsto> PStr ''expired'']" demo_env p
        "Dict [''order_id'' \<mapsto> PInt 555]" "''sid2''" init_server]
  by (simp add: demo_env_def demo_decode_def init_server_def handler_defs)

section \<open>Sending: store, then broadcast\<close>





section \<open>Fan-out to the room\<close>



section \<open>The correlation id\<close>





section \<open>Malformed requests\<close>

text \<open>
  C6. An event without an order id (none in the payload, a falsy one, or a payload that is
  not a dict) leaves the whole server state as it was in \<^verbatim>\<open>join_order_room\<close>,
  \<^verbatim>\<open>leave_order_room\<close> and \<^verbatim>\<open>send_message\<close>: no row is written, no room or session
  changes and nothing is sent to anybody. The two room handlers return normally, and so
  do both send handlers when the text is a string (or absent) that is empty once stripped,
  or, for \<^verbatim>\<open>send_message\<close>, when the order id is missing beside such a string text.
\<close>

theorem malformed_request_is_dropped:
  "(\<not> truthy (payload_order_id data) \<longrightarrow>
      join_order_room c data s = (None, s) \<and> leave_order_room c data s = (None, s) \<and>
      snd (send_message e c data s) = s) \<and>
   (\<forall>d t. data = Dict d \<and> payload_text d = PStr t \<and>
          (\<not> truthy (dict_get d ''order_id'') \<or> strip t = []) \<longrightarrow>
          send_message e c data s = (None, s)) \<and>
   (\<forall>d t. data = Dict d \<and> payload_text d = PStr t \<and> strip t = [] \<longrightarrow>
          send_user_message e c data s = (None, s))"
  by (auto simp: join_order_room_def leave_order_room_def send_message_def send_user_message_def
        get_session_def payload_order_id_def Let_def
        split: option.splits pydata.splits sum.splits)

theorem malformed_request_is_dropped_witness:
  "\<not> truthy (payload_order_id (Dict [''text'' \<mapsto> PStr ''  ''])) \<and>
   payload_text [''text'' \<mapsto> PStr ''  ''] = PStr ''  '' \<and> strip ''  '' = [] \<and>
   sessions demo_room ''sid1'' \<noteq> None \<and>
   join_order_room ''sid1'' (Dict [''text'' \<mapsto> PStr ''  '']) demo_room = (None, demo_room) \<and>
   leave_order_room ''sid1'' (Dict [''text'' \<mapsto> PStr ''  '']) demo_room = (None, demo_room) \<and>
   send_message demo_env ''sid1'' (Dict [''text'' \<mapsto> PStr ''  '']) demo_room = (None, demo_room) \<and>
   send_user_message demo_env ''sid1'' (Dict [''text'' \<mapsto> PStr ''  '']) demo_room = (None, demo_room)"
proof -
  have h: "\<not> truthy (payload_order_id (Dict [''text'' \<mapsto> PStr ''  '']))"
      "payload_text [''text'' \<mapsto> PStr ''  ''] = PStr ''  ''" "strip ''  '' = []"
      "\<not> truthy (dict_get [''text'' \<mapsto> PStr ''  ''] ''order_id'')"
      "sessions demo_room ''sid1'' \<noteq> None"
    by (simp_all add: payload_order_id_def payload_text_def dict_get_def dict_get_default_def
          strip_def is_space_def demo_room_eq)
  from malformed_request_is_dropped
         [of "Dict [''text'' \<mapsto> PStr ''  '']" "''sid1''" demo_room demo_env] h
  show ?thesis by blast
qed


section \<open>Joining and leaving rooms\<close>

text \<open>
  C8. Joining a room the connection is already in (an order room by
  \<^verbatim>\<open>join_order_room\<close>, the personal room by \<^verbatim>\<open>join\<close>) and leaving an order room it is
  not in leave the server as it was; and after any finite sequence of joins and leaves of
  the room of an order by connections (the joining ones having a session), the room's
  members are the set the specification gives: each join a union, each leave a
  difference, whatever the duplicates.
\<close>

theorem join_leave_idempotent:
  "(c \<in> rooms s (order_room (payload_order_id data)) \<longrightarrow> snd (join_order_room c data s) = s) \<and>
   (c \<notin> rooms s (order_room (payload_order_id data)) \<longrightarrow> snd (leave_order_room c data s) = s) \<and>
   (\<forall>sess. sessions s c = Some sess \<and> c \<in> rooms s (user_room (sess_user_id sess)) \<longrightarrow>
           snd (join c data' s) = s) \<and>
   (truthy oid \<and> (\<forall>c'. JoinOp c' \<in> set ops \<longrightarrow> sessions s c' \<noteq> None) \<longrightarrow>
      rooms (run (map (order_room_event e oid) ops) s) (order_room oid)
        = membership_after ops (rooms s (order_room oid)))"
  using join_order_room_again [of c s data] leave_order_room_absent [of c s data]
    join_again [of s c _ data'] run_order_room_ops [of oid ops s e]
  by blast

theorem join_leave_idempotent_witness:
  "''sid1'' \<in> rooms demo_room (order_room (payload_order_id (Dict [''order_id'' \<mapsto> PInt 555]))) \<and>
   snd (join_order_room ''sid1'' (Dict [''order_id'' \<mapsto> PInt 555]) demo_room) = demo_room \<and>
   ''sid3'' \<notin> rooms demo_room (order_room (payload_order_id (Dict [''order_id'' \<mapsto> PInt 555]))) \<and>
   snd (leave_order_room ''sid3'' (Dict [''order_id'' \<mapsto> PInt 555]) demo_room) = demo_room \<and>
   snd (join ''sid1'' NonDict demo_room) = demo_room \<and>
   truthy (PInt 777) \<and> rooms demo_room (order_room (PInt 777)) = {} \<and>
   sessions demo_room ''sid1'' \<noteq> None \<and> sessions demo_room ''sid3'' \<noteq> None \<and>
   rooms (run (map (order_room_event demo_env (PInt 777))
                 [JoinOp ''sid1'', JoinOp ''sid1'', LeaveOp ''sid2'', JoinOp ''sid3'',
                  LeaveOp ''sid1'', LeaveOp ''sid1'']) demo_room) (order_room (PInt 777))
     = {''sid3''}"
proof -
  let ?d = "Dict [''order_id'' \<mapsto> PInt 555]"
  let ?ops = "[JoinOp ''sid1'', JoinOp ''sid1'', LeaveOp ''sid2'', JoinOp ''sid3'',
               LeaveOp ''sid1'', LeaveOp ''sid1'']"
  have h: "truthy (PInt 777) \<and> (\<forall>c'. JoinOp c' \<in> set ?ops \<longrightarrow> sessions demo_room c' \<noteq> None)"
    by (auto simp: demo_room_eq)
  have r: "rooms demo_room (order_room (PInt 777)) = {}"
      "''sid1'' \<in> rooms demo_room (order_room (payload_order_id ?d))"
      "''sid3'' \<notin> rooms demo_room (order_room (payload_order_id ?d))"
      "sessions demo_room ''sid1'' = Some \<lparr>sess_user_id = PInt 1, sess_username = PStr ''u1''\<rparr>"
      "''sid1'' \<in> rooms demo_room (user_room (sess_user_id \<lparr>sess_user_id = PInt 1, sess_username = PStr ''u1''\<rparr>))"
      "sessions demo_room ''sid3'' \<noteq> None"
    by (simp_all add: demo_room_eq order_room_def user_room_def payload_order_id_def dict_get_def
          str_int_def str_nat.simps digit_char_def)
  have m: "membership_after ?ops {} = {''sid3''}"
    by auto
  from join_leave_idempotent [of "''sid1''" demo_room ?d NonDict "PInt 777" ?ops demo_env]
       join_leave_idempotent [of "''sid3''" demo_room ?d NonDict "PInt 777" "[]" demo_env]
       h r m
  show ?thesis by simp
qed

section \<open>Messages from staff\<close>





section \<open>Identity comes from the session\<close>



end
